theory Spec2Isabelle
  imports Complex_Main "HOL-Library.AList"
begin

section \<open>Python values, dictionaries and exceptions\<close>

text \<open>
  The values a decoded JSON document is made of. Python's \<open>int\<close> is unbounded
  (\<open>int\<close>); a JSON float is a finite double, hence a rational, and only its
  order against \<open>0\<close> and \<open>100\<close> is ever used.
\<close>

datatype json =
    JNull
  | JBool bool
  | JInt int
  | JFloat rat
  | JStr string
  | JArr "json list"
  | JObj "(string \<times> json) list"

text \<open>The exceptions of the modelled code, as values.\<close>

datatype error =
    ValueError string
  | KeyError string
  | TypeError
  | JSONDecodeError
  | Invalid string
  | ConfigError string

text \<open>
  A Python \<open>dict\<close> with string keys: an association list in insertion order with
  distinct keys. \<open>AList.update\<close> overwrites a key in place and appends a new one,
  which is what assignment to a \<open>dict\<close> does.
\<close>

type_synonym 'v pydict = "(string \<times> 'v) list"

definition dict_contains :: "'v pydict \<Rightarrow> string \<Rightarrow> bool" where
  "dict_contains d k = (map_of d k \<noteq> None)"

definition dict_get :: "'v pydict \<Rightarrow> string \<Rightarrow> 'v \<Rightarrow> 'v" where
  "dict_get d k dflt = (case map_of d k of None \<Rightarrow> dflt | Some v \<Rightarrow> v)"

definition dict_update :: "'v pydict \<Rightarrow> 'v pydict \<Rightarrow> 'v pydict" where
  "dict_update d other = foldl (\<lambda>acc kv. AList.update (fst kv) (snd kv) acc) d other"

definition dict_del :: "'v pydict \<Rightarrow> string \<Rightarrow> 'v pydict" where
  "dict_del d k = AList.delete k d"

text \<open>Truthiness of a value, as \<open>if payload[STATE]\<close> tests it.\<close>

fun truthy :: "json \<Rightarrow> bool" where
  "truthy JNull = False"
| "truthy (JBool b) = b"
| "truthy (JInt n) = (n \<noteq> 0)"
| "truthy (JFloat r) = (r \<noteq> 0)"
| "truthy (JStr s) = (s \<noteq> [])"
| "truthy (JArr xs) = (xs \<noteq> [])"
| "truthy (JObj kvs) = (kvs \<noteq> [])"

text \<open>
  The numeric reading of a value: \<open>bool\<close> is a subclass of \<open>int\<close> in Python.
  Comparing anything else with an \<open>int\<close> raises \<open>TypeError\<close>.
\<close>

fun number_of :: "json \<Rightarrow> rat option" where
  "number_of (JBool b) = Some (if b then 1 else 0)"
| "number_of (JInt n) = Some (of_int n)"
| "number_of (JFloat r) = Some r"
| "number_of _ = None"

text \<open>
  \<open>min(a, x)\<close> and \<open>max(a, x)\<close> of two arguments, the first a number: the
  second is taken only when it is strictly smaller (larger), and it is returned as
  the object it is.
\<close>

definition py_min :: "json \<Rightarrow> json \<Rightarrow> error + json" where
  "py_min a x =
     (case (number_of a, number_of x) of
        (Some m, Some n) \<Rightarrow> Inr (if n < m then x else a)
      | _ \<Rightarrow> Inl TypeError)"

definition py_max :: "json \<Rightarrow> json \<Rightarrow> error + json" where
  "py_max a x =
     (case (number_of a, number_of x) of
        (Some m, Some n) \<Rightarrow> Inr (if n > m then x else a)
      | _ \<Rightarrow> Inl TypeError)"

section \<open>Features and the name tables\<close>

text \<open>
  Modelled from the spec: \<open>MediaPlayerEntityFeature\<close> is the host's flag
  enumeration and is not part of the source files; the spec describes a capability
  as one of a fixed set of values and a capability set as a bitset-like collection
  of them. The members are the ones the source names, each a flag of its own, and a
  value of the enumeration is the set of its flags: \<open>a | b\<close> is the union and
  \<open>x & f == 0\<close> says that \<open>f\<close> is not in \<open>x\<close>.
\<close>

datatype MediaPlayerEntityFeature =
    PAUSE
  | SEEK
  | VOLUME_SET
  | VOLUME_MUTE
  | PREVIOUS_TRACK
  | NEXT_TRACK
  | TURN_ON
  | TURN_OFF
  | PLAY_MEDIA
  | VOLUME_STEP
  | SELECT_SOURCE
  | STOP
  | CLEAR_PLAYLIST
  | PLAY
  | SHUFFLE_SET
  | SELECT_SOUND_MODE
  | BROWSE_MEDIA
  | REPEAT_SET
  | GROUPING
  | MEDIA_ANNOUNCE
  | MEDIA_ENQUEUE
  | FEATURE_STATE
  | SEND_COMMAND

definition SERVICE_TO_STRING :: "(MediaPlayerEntityFeature \<times> string) list" where
  "SERVICE_TO_STRING =
     [(PAUSE, ''pause''),
      (SEEK, ''seek''),
      (VOLUME_SET, ''volume_set''),
      (VOLUME_MUTE, ''volume_mute''),
      (PREVIOUS_TRACK, ''previous_track''),
      (NEXT_TRACK, ''next_track''),
      (TURN_ON, ''turn_on''),
      (TURN_OFF, ''turn_off''),
      (PLAY_MEDIA, ''play_media''),
      (VOLUME_STEP, ''volume_step''),
      (SELECT_SOURCE, ''select_source''),
      (STOP, ''stop''),
      (CLEAR_PLAYLIST, ''clear_playlist''),
      (PLAY, ''play''),
      (SHUFFLE_SET, ''shuffle_set''),
      (SELECT_SOUND_MODE, ''select_sound_mode''),
      (BROWSE_MEDIA, ''browse_media''),
      (REPEAT_SET, ''repeat_set''),
      (GROUPING, ''grouping''),
      (MEDIA_ANNOUNCE, ''media_announce''),
      (MEDIA_ENQUEUE, ''media_enqueue'')]"

text \<open>\<open>{v: k for k, v in SERVICE_TO_STRING.items()}\<close>\<close>

definition STRING_TO_SERVICE :: "MediaPlayerEntityFeature pydict" where
  "STRING_TO_SERVICE = dict_update [] (map (\<lambda>kv. (snd kv, fst kv)) SERVICE_TO_STRING)"

definition DEFAULT_SERVICES :: "MediaPlayerEntityFeature set" where
  "DEFAULT_SERVICES =
     {TURN_ON} \<union> {TURN_OFF} \<union> {PLAY} \<union> {PAUSE} \<union> {STOP} \<union> {VOLUME_SET}
       \<union> {VOLUME_MUTE} \<union> {SELECT_SOURCE}"

text \<open>
  Modelled from the spec: \<open>strings_to_services\<close> and \<open>services_to_strings\<close>
  are imported from the package's \<open>schema\<close> module, which is not among the source
  files. The spec (4.1) has the first resolve each name through the fixed table,
  fail on the first unrecognized name and collapse duplicates, and the second
  produce the names of the members of a set in a stable order (here the order of
  the table).
\<close>

fun strings_to_services ::
  "string list \<Rightarrow> MediaPlayerEntityFeature pydict \<Rightarrow> error + MediaPlayerEntityFeature set" where
  "strings_to_services [] string_to_service = Inr {}"
| "strings_to_services (s # strings) string_to_service =
     (case map_of string_to_service s of
        None \<Rightarrow> Inl (ConfigError s)
      | Some f \<Rightarrow>
          (case strings_to_services strings string_to_service of
             Inl err \<Rightarrow> Inl err
           | Inr services \<Rightarrow> Inr (insert f services)))"

definition services_to_strings ::
  "MediaPlayerEntityFeature set \<Rightarrow> (MediaPlayerEntityFeature \<times> string) list \<Rightarrow> string list" where
  "services_to_strings services service_to_string =
     map snd (filter (\<lambda>kv. fst kv \<in> services) service_to_string)"

definition DEFAULT_SERVICE_STRINGS :: "string list" where
  "DEFAULT_SERVICE_STRINGS = services_to_strings DEFAULT_SERVICES SERVICE_TO_STRING"

section \<open>Constants of the module\<close>

definition BATTERY :: string where "BATTERY = ''battery_level''"
definition FAN_SPEED :: string where "FAN_SPEED = ''fan_speed''"
definition STATE :: string where "STATE = ''state''"

text \<open>The host's state names: \<open>STATE_ON\<close>, \<open>STATE_OFF\<close>, \<open>STATE_PLAYING\<close>, \<open>STATE_PAUSED\<close>.\<close>

definition STATE_ON :: string where "STATE_ON = ''on''"
definition STATE_OFF :: string where "STATE_OFF = ''off''"
definition STATE_PLAYING :: string where "STATE_PLAYING = ''playing''"
definition STATE_PAUSED :: string where "STATE_PAUSED = ''paused''"

definition POSSIBLE_STATES :: "string pydict" where
  "POSSIBLE_STATES =
     [(STATE_ON, STATE_ON),
      (STATE_OFF, STATE_OFF),
      (STATE_PLAYING, STATE_PLAYING),
      (STATE_PAUSED, STATE_PAUSED)]"

definition CONF_PAYLOAD_PAUSE :: string where "CONF_PAYLOAD_PAUSE = ''payload_pause''"
definition CONF_PAYLOAD_SEEK :: string where "CONF_PAYLOAD_SEEK = ''payload_seek''"
definition CONF_PAYLOAD_VOLUME_SET :: string where "CONF_PAYLOAD_VOLUME_SET = ''payload_volume_set''"
definition CONF_PAYLOAD_VOLUME_MUTE :: string where "CONF_PAYLOAD_VOLUME_MUTE = ''payload_volume_mute''"
definition CONF_PAYLOAD_PREVIOUS_TRACK :: string where
  "CONF_PAYLOAD_PREVIOUS_TRACK = ''payload_previous_track''"
definition CONF_PAYLOAD_NEXT_TRACK :: string where "CONF_PAYLOAD_NEXT_TRACK = ''payload_next_track''"
definition CONF_PAYLOAD_TURN_ON :: string where "CONF_PAYLOAD_TURN_ON = ''payload_turn_on''"
definition CONF_PAYLOAD_TURN_OFF :: string where "CONF_PAYLOAD_TURN_OFF = ''payload_turn_off''"
definition CONF_PAYLOAD_PLAY_MEDIA :: string where "CONF_PAYLOAD_PLAY_MEDIA = ''payload_play_media''"
definition CONF_PAYLOAD_VOLUME_STEP :: string where "CONF_PAYLOAD_VOLUME_STEP = ''payload_volume_step''"
definition CONF_PAYLOAD_SELECT_SOURCE :: string where
  "CONF_PAYLOAD_SELECT_SOURCE = ''payload_select_source''"
definition CONF_PAYLOAD_STOP :: string where "CONF_PAYLOAD_STOP = ''payload_stop''"
definition CONF_PAYLOAD_CLEAR_PLAYLIST :: string where
  "CONF_PAYLOAD_CLEAR_PLAYLIST = ''payload_clear_playlist''"
definition CONF_PAYLOAD_PLAY :: string where "CONF_PAYLOAD_PLAY = ''payload_play''"
definition CONF_PAYLOAD_SHUFFLE_SET :: string where "CONF_PAYLOAD_SHUFFLE_SET = ''payload_shuffle_set''"
definition CONF_PAYLOAD_SELECT_SOUND_MODE :: string where
  "CONF_PAYLOAD_SELECT_SOUND_MODE = ''payload_select_sound_mode''"
definition CONF_PAYLOAD_BROWSE_MEDIA :: string where
  "CONF_PAYLOAD_BROWSE_MEDIA = ''payload_browse_media''"
definition CONF_PAYLOAD_REPEAT_SET :: string where "CONF_PAYLOAD_REPEAT_SET = ''payload_repeat_set''"
definition CONF_PAYLOAD_GROUPING :: string where "CONF_PAYLOAD_GROUPING = ''payload_grouping''"
definition CONF_PAYLOAD_MEDIA_ANNOUNCE :: string where
  "CONF_PAYLOAD_MEDIA_ANNOUNCE = ''payload_media_announce''"
definition CONF_PAYLOAD_MEDIA_ENQUEUE :: string where
  "CONF_PAYLOAD_MEDIA_ENQUEUE = ''payload_media_enqueue''"

definition DEFAULT_RETAIN :: bool where "DEFAULT_RETAIN = False"
definition DEFAULT_PAYLOAD_PAUSE :: string where "DEFAULT_PAYLOAD_PAUSE = ''pause''"
definition DEFAULT_PAYLOAD_PREVIOUS_TRACK :: string where "DEFAULT_PAYLOAD_PREVIOUS_TRACK = ''previous''"
definition DEFAULT_PAYLOAD_NEXT_TRACK :: string where "DEFAULT_PAYLOAD_NEXT_TRACK = ''next''"
definition DEFAULT_PAYLOAD_STOP :: string where "DEFAULT_PAYLOAD_STOP = ''stop''"
definition DEFAULT_PAYLOAD_CLEAR_PLAYLIST :: string where
  "DEFAULT_PAYLOAD_CLEAR_PLAYLIST = ''clear_playlist''"
definition DEFAULT_PAYLOAD_PLAY :: string where "DEFAULT_PAYLOAD_PLAY = ''play''"
definition DEFAULT_PAYLOAD_BROWSE_MEDIA :: string where "DEFAULT_PAYLOAD_BROWSE_MEDIA = ''browse''"
definition DEFAULT_PAYLOAD_MEDIA_ANNOUNCE :: string where
  "DEFAULT_PAYLOAD_MEDIA_ANNOUNCE = ''media_announce''"

text \<open>
  \<open>_FEATURE_PAYLOADS\<close>: the configuration key of each feature's payload. A
  feature outside the table has no entry, and subscripting with it raises
  \<open>KeyError\<close>.
\<close>

definition FEATURE_PAYLOADS :: "(MediaPlayerEntityFeature \<times> string) list" where
  "FEATURE_PAYLOADS =
     [(PAUSE, CONF_PAYLOAD_PAUSE),
      (SEEK, CONF_PAYLOAD_SEEK),
      (VOLUME_SET, CONF_PAYLOAD_VOLUME_SET),
      (VOLUME_MUTE, CONF_PAYLOAD_VOLUME_MUTE),
      (PREVIOUS_TRACK, CONF_PAYLOAD_PREVIOUS_TRACK),
      (NEXT_TRACK, CONF_PAYLOAD_NEXT_TRACK),
      (TURN_ON, CONF_PAYLOAD_TURN_ON),
      (TURN_OFF, CONF_PAYLOAD_TURN_OFF),
      (PLAY_MEDIA, CONF_PAYLOAD_PLAY_MEDIA),
      (VOLUME_STEP, CONF_PAYLOAD_VOLUME_STEP),
      (SELECT_SOURCE, CONF_PAYLOAD_SELECT_SOURCE),
      (STOP, CONF_PAYLOAD_STOP),
      (CLEAR_PLAYLIST, CONF_PAYLOAD_CLEAR_PLAYLIST),
      (PLAY, CONF_PAYLOAD_PLAY),
      (SHUFFLE_SET, CONF_PAYLOAD_SHUFFLE_SET),
      (SELECT_SOUND_MODE, CONF_PAYLOAD_SELECT_SOUND_MODE),
      (BROWSE_MEDIA, CONF_PAYLOAD_BROWSE_MEDIA),
      (REPEAT_SET, CONF_PAYLOAD_REPEAT_SET),
      (GROUPING, CONF_PAYLOAD_GROUPING),
      (MEDIA_ANNOUNCE, CONF_PAYLOAD_MEDIA_ANNOUNCE),
      (MEDIA_ENQUEUE, CONF_PAYLOAD_MEDIA_ENQUEUE)]"

section \<open>Configuration and its schema\<close>

text \<open>
  What the user writes: every key is optional. \<open>raw_payloads\<close> holds the
  \<open>payload_*\<close> keys that are present. The quality of service and the encoding
  come from the host's base schema, which always supplies them.
\<close>

record raw_config =
  raw_source_list :: "string list option"
  raw_payloads :: "string pydict"
  raw_send_command_topic :: "string option"
  raw_set_volume_topic :: "string option"
  raw_state_topic :: "string option"
  raw_supported_features :: "string list option"
  raw_command_topic :: "string option"
  raw_retain :: "bool option"
  raw_qos :: nat
  raw_encoding :: string

text \<open>The validated configuration, as the entity reads it.\<close>

record config =
  conf_source_list :: "string list"
  conf_payloads :: "string pydict"
  conf_send_command_topic :: "string option"
  conf_set_volume_topic :: "string option"
  conf_state_topic :: "string option"
  conf_supported_features :: "string list"
  conf_command_topic :: "string option"
  conf_retain :: bool
  conf_qos :: nat
  conf_encoding :: string

text \<open>The payload keys to which the schema gives a default.\<close>

definition SCHEMA_PAYLOAD_DEFAULTS :: "string pydict" where
  "SCHEMA_PAYLOAD_DEFAULTS =
     [(CONF_PAYLOAD_PAUSE, DEFAULT_PAYLOAD_PAUSE),
      (CONF_PAYLOAD_PREVIOUS_TRACK, DEFAULT_PAYLOAD_PREVIOUS_TRACK),
      (CONF_PAYLOAD_NEXT_TRACK, DEFAULT_PAYLOAD_NEXT_TRACK),
      (CONF_PAYLOAD_STOP, DEFAULT_PAYLOAD_STOP),
      (CONF_PAYLOAD_CLEAR_PLAYLIST, DEFAULT_PAYLOAD_CLEAR_PLAYLIST),
      (CONF_PAYLOAD_PLAY, DEFAULT_PAYLOAD_PLAY),
      (CONF_PAYLOAD_BROWSE_MEDIA, DEFAULT_PAYLOAD_BROWSE_MEDIA),
      (CONF_PAYLOAD_MEDIA_ANNOUNCE, DEFAULT_PAYLOAD_MEDIA_ANNOUNCE)]"

text \<open>\<open>[vol.In(STRING_TO_SERVICE.keys())]\<close>: the first name outside the table, if any.\<close>

fun first_unknown :: "string list \<Rightarrow> 'v pydict \<Rightarrow> string option" where
  "first_unknown [] table = None"
| "first_unknown (s # strings) table =
     (if dict_contains table s then first_unknown strings table else Some s)"

text \<open>
  \<open>PLATFORM_SCHEMA_STATE_MODERN\<close>: the defaults are filled in and the list of
  supported features is checked against the keys of \<open>STRING_TO_SERVICE\<close>. The
  checks of the host's schemas it extends (the syntax of a topic, the keys they
  accept) are outside the source files; the model lets every topic string and
  every payload key through.
\<close>

definition PLATFORM_SCHEMA_STATE_MODERN :: "raw_config \<Rightarrow> error + config" where
  "PLATFORM_SCHEMA_STATE_MODERN raw =
     (let features =
            (case raw_supported_features raw of
               None \<Rightarrow> DEFAULT_SERVICE_STRINGS
             | Some strings \<Rightarrow> strings)
      in case first_unknown features STRING_TO_SERVICE of
           Some s \<Rightarrow> Inl (Invalid s)
         | None \<Rightarrow>
             Inr \<lparr>conf_source_list =
                    (case raw_source_list raw of None \<Rightarrow> [] | Some sources \<Rightarrow> sources),
                  conf_payloads = dict_update SCHEMA_PAYLOAD_DEFAULTS (raw_payloads raw),
                  conf_send_command_topic = raw_send_command_topic raw,
                  conf_set_volume_topic = raw_set_volume_topic raw,
                  conf_state_topic = raw_state_topic raw,
                  conf_supported_features = features,
                  conf_command_topic = raw_command_topic raw,
                  conf_retain = (case raw_retain raw of None \<Rightarrow> DEFAULT_RETAIN | Some r \<Rightarrow> r),
                  conf_qos = raw_qos raw,
                  conf_encoding = raw_encoding raw\<rparr>)"

text \<open>
  \<open>DISCOVERY_SCHEMA_STATE\<close> is the same schema with unknown keys removed rather
  than refused; the keys modelled here are all known to it.
\<close>

definition DISCOVERY_SCHEMA_STATE :: "raw_config \<Rightarrow> error + config" where
  "DISCOVERY_SCHEMA_STATE raw = PLATFORM_SCHEMA_STATE_MODERN raw"

section \<open>The entity\<close>

text \<open>
  The attributes of \<open>MqttStateMediaPlayer\<close>. \<open>attr_fan_speed\<close> and
  \<open>attr_battery_level\<close> are \<open>None\<close> until a state message first assigns
  them; \<open>attr_state\<close> is \<open>None\<close> while the state is unknown.
\<close>

record entity =
  ent_config :: config
  attr_supported_features :: "MediaPlayerEntityFeature set"
  attr_source_list :: "string list option"
  command_topic :: "string option"
  set_volume_topic :: "string option"
  send_command_topic :: "string option"
  payloads :: "string option pydict"
  state_attrs :: "json pydict"
  attr_state :: "string option"
  attr_fan_speed :: "json option"
  attr_battery_level :: "json option"

text \<open>What a call hands to the host: a publication, or a request to write the state.\<close>

record message =
  msg_topic :: string
  msg_payload :: "string option"
  msg_qos :: nat
  msg_retain :: bool
  msg_encoding :: string

datatype effect = Publish message | WriteHaState

text \<open>
  The result of a call: the exception it raised, if any, the entity as the call
  left it, and the effects it had up to that point, in order.
\<close>

record outcome =
  raised :: "error option"
  ent :: entity
  out :: "effect list"

definition returns :: "entity \<Rightarrow> effect list \<Rightarrow> outcome" where
  "returns e effects = \<lparr>raised = None, ent = e, out = effects\<rparr>"

definition raises :: "error \<Rightarrow> entity \<Rightarrow> effect list \<Rightarrow> outcome" where
  "raises err e effects = \<lparr>raised = Some err, ent = e, out = effects\<rparr>"

definition publishes :: "outcome \<Rightarrow> message list" where
  "publishes r = concat (map (\<lambda>x. case x of Publish m \<Rightarrow> [m] | WriteHaState \<Rightarrow> []) (out r))"

text \<open>The keys of \<open>_payloads\<close>, in the order of the comprehension.\<close>

definition PAYLOAD_KEYS :: "string list" where
  "PAYLOAD_KEYS =
     [CONF_PAYLOAD_PAUSE, CONF_PAYLOAD_SEEK, CONF_PAYLOAD_VOLUME_SET, CONF_PAYLOAD_VOLUME_MUTE,
      CONF_PAYLOAD_PREVIOUS_TRACK, CONF_PAYLOAD_NEXT_TRACK, CONF_PAYLOAD_TURN_ON,
      CONF_PAYLOAD_TURN_OFF, CONF_PAYLOAD_PLAY_MEDIA, CONF_PAYLOAD_VOLUME_STEP,
      CONF_PAYLOAD_SELECT_SOURCE, CONF_PAYLOAD_STOP, CONF_PAYLOAD_CLEAR_PLAYLIST,
      CONF_PAYLOAD_PLAY, CONF_PAYLOAD_SHUFFLE_SET, CONF_PAYLOAD_SELECT_SOUND_MODE,
      CONF_PAYLOAD_BROWSE_MEDIA, CONF_PAYLOAD_REPEAT_SET, CONF_PAYLOAD_GROUPING,
      CONF_PAYLOAD_MEDIA_ANNOUNCE, CONF_PAYLOAD_MEDIA_ENQUEUE]"

definition setup_from_config :: "entity \<Rightarrow> config \<Rightarrow> error + entity" where
  "setup_from_config self cfg =
     (case strings_to_services (conf_supported_features cfg) STRING_TO_SERVICE of
        Inl err \<Rightarrow> Inl err
      | Inr services \<Rightarrow>
          Inr (self\<lparr>attr_supported_features := {FEATURE_STATE} \<union> services,
                    attr_source_list := Some (conf_source_list cfg),
                    command_topic := conf_command_topic cfg,
                    set_volume_topic := conf_set_volume_topic cfg,
                    send_command_topic := conf_send_command_topic cfg,
                    payloads := map (\<lambda>key. (key, map_of (conf_payloads cfg) key)) PAYLOAD_KEYS\<rparr>))"

text \<open>
  \<open>__init__\<close>: the attribute dictionary starts empty, and the host's
  constructor keeps the configuration and calls \<open>_setup_from_config\<close>.
\<close>

definition new_entity :: "config \<Rightarrow> entity" where
  "new_entity cfg =
     \<lparr>ent_config = cfg, attr_supported_features = {}, attr_source_list = None,
      command_topic = None, set_volume_topic = None, send_command_topic = None,
      payloads = [], state_attrs = [], attr_state = None, attr_fan_speed = None,
      attr_battery_level = None\<rparr>"

definition init :: "config \<Rightarrow> error + entity" where
  "init cfg = setup_from_config (new_entity cfg) cfg"

section \<open>Inbound: the state message\<close>

text \<open>
  \<open>_update_state_attributes\<close>. The dictionary is merged first; the fan speed is
  assigned next; the comparisons of the battery level come last, so a battery
  level that is no number raises after both assignments.
\<close>

definition update_state_attributes :: "entity \<Rightarrow> json pydict \<Rightarrow> outcome" where
  "update_state_attributes self payload =
     (let attrs = dict_update (state_attrs self) payload;
          self1 = self\<lparr>state_attrs := attrs\<rparr>;
          self2 = self1\<lparr>attr_fan_speed := Some (dict_get attrs FAN_SPEED (JInt 0))\<rparr>
      in case py_min (JInt 100) (dict_get attrs BATTERY (JInt 0)) of
           Inl err \<Rightarrow> raises err self2 []
         | Inr m \<Rightarrow>
             (case py_max (JInt 0) m of
                Inl err \<Rightarrow> raises err self2 []
              | Inr level \<Rightarrow> returns (self2\<lparr>attr_battery_level := Some level\<rparr>) []))"

text \<open>
  The payload of a received message, with what the host's JSON parser makes of it:
  either the text is not JSON, or it is the document given.
\<close>

datatype received = Malformed | Document json

text \<open>
  \<open>json_loads_object\<close> (the host's helper): the parser's error for a text that
  is not JSON, \<open>ValueError\<close> for a document that is no object, and otherwise the
  dictionary, in which a repeated key keeps its last value.
\<close>

fun json_loads_object :: "received \<Rightarrow> error + json pydict" where
  "json_loads_object Malformed = Inl JSONDecodeError"
| "json_loads_object (Document (JObj kvs)) = Inr (dict_update [] kvs)"
| "json_loads_object (Document _) = Inl (ValueError ''Expected JSON to be parsed as a dict'')"

text \<open>
  \<open>state in POSSIBLE_STATES\<close>: a list or a dictionary cannot be hashed, and
  nothing but a string equals a key.
\<close>

fun in_dict :: "json \<Rightarrow> 'v pydict \<Rightarrow> error + bool" where
  "in_dict (JStr s) d = Inr (dict_contains d s)"
| "in_dict (JArr xs) d = Inl TypeError"
| "in_dict (JObj kvs) d = Inl TypeError"
| "in_dict _ d = Inr False"

text \<open>\<open>POSSIBLE_STATES[cast(str, state)] if payload[STATE] else None\<close>\<close>

definition new_state :: "json \<Rightarrow> error + string option" where
  "new_state state =
     (if truthy state then
        (case state of
           JStr s \<Rightarrow>
             (case map_of POSSIBLE_STATES s of
                None \<Rightarrow> Inl (KeyError s)
              | Some v \<Rightarrow> Inr (Some v))
         | _ \<Rightarrow> Inl (KeyError ''state''))
      else Inr None)"

text \<open>
  \<open>state_message_received\<close>, the body of the callback. The decorators around it
  belong to the host and are not part of the source files.
\<close>

definition state_message_received :: "entity \<Rightarrow> received \<Rightarrow> outcome" where
  "state_message_received self msg =
     (case json_loads_object msg of
        Inl err \<Rightarrow> raises err self []
      | Inr payload \<Rightarrow>
          (case map_of payload STATE of
             None \<Rightarrow> update_state_attributes self payload
           | Some state \<Rightarrow>
               (case in_dict state POSSIBLE_STATES of
                  Inl err \<Rightarrow> raises err self []
                | Inr known \<Rightarrow>
                    if known \<or> state = JNull then
                      (case new_state state of
                         Inl err \<Rightarrow> raises err self []
                       | Inr st \<Rightarrow>
                           update_state_attributes (self\<lparr>attr_state := st\<rparr>)
                             (dict_del payload STATE))
                    else update_state_attributes self payload)))"

section \<open>Outbound: the commands\<close>

definition async_publish_command :: "entity \<Rightarrow> MediaPlayerEntityFeature \<Rightarrow> outcome" where
  "async_publish_command self feature =
     (case command_topic self of
        None \<Rightarrow> returns self []
      | Some t \<Rightarrow>
          (case map_of FEATURE_PAYLOADS feature of
             None \<Rightarrow> raises (KeyError ''feature'') self []
           | Some key \<Rightarrow>
               (case map_of (payloads self) key of
                  None \<Rightarrow> raises (KeyError key) self []
                | Some p \<Rightarrow>
                    returns self
                      [Publish \<lparr>msg_topic = t, msg_payload = p,
                                msg_qos = conf_qos (ent_config self),
                                msg_retain = conf_retain (ent_config self),
                                msg_encoding = conf_encoding (ent_config self)\<rparr>,
                       WriteHaState])))"

definition async_turn_off :: "entity \<Rightarrow> outcome" where
  "async_turn_off self = async_publish_command self TURN_OFF"

definition async_turn_on :: "entity \<Rightarrow> outcome" where
  "async_turn_on self = async_publish_command self TURN_ON"

definition async_set_volume_level :: "entity \<Rightarrow> rat \<Rightarrow> outcome" where
  "async_set_volume_level self volume = async_publish_command self VOLUME_SET"

definition async_mute_volume :: "entity \<Rightarrow> bool \<Rightarrow> outcome" where
  "async_mute_volume self mute =
     (if mute then async_publish_command self VOLUME_MUTE
      else async_publish_command self VOLUME_MUTE)"

definition async_select_source :: "entity \<Rightarrow> string \<Rightarrow> outcome" where
  "async_select_source self source =
     (case attr_source_list self of
        None \<Rightarrow> raises (ValueError (''Unknown input source: '' @ source @ ''.'')) self []
      | Some sources \<Rightarrow>
          if source \<in> set sources then async_publish_command self SELECT_SOURCE
          else raises (ValueError (''Unknown input source: '' @ source @ ''.'')) self [])"

definition async_pause :: "entity \<Rightarrow> outcome" where
  "async_pause self = async_publish_command self PAUSE"

definition async_media_play :: "entity \<Rightarrow> outcome" where
  "async_media_play self = async_publish_command self PLAY"

definition async_media_pause :: "entity \<Rightarrow> outcome" where
  "async_media_pause self = async_publish_command self PAUSE"

definition async_media_previous_track :: "entity \<Rightarrow> outcome" where
  "async_media_previous_track self = async_publish_command self PREVIOUS_TRACK"

definition async_media_next_track :: "entity \<Rightarrow> outcome" where
  "async_media_next_track self = async_publish_command self NEXT_TRACK"

text \<open>The \<open>params\<close> argument of \<open>async_send_command\<close>: a dictionary, a list or \<open>None\<close>.\<close>

datatype params = ParamsDict "json pydict" | ParamsList "json list" | ParamsNone

text \<open>
  \<open>async_send_command\<close>. \<open>json_dumps\<close> is the host's serializer and is a
  parameter of the model. The keyword arguments are not used by the source.
\<close>

definition async_send_command ::
  "(json pydict \<Rightarrow> string) \<Rightarrow> entity \<Rightarrow> string \<Rightarrow> params \<Rightarrow> outcome" where
  "async_send_command json_dumps self command ps =
     (case send_command_topic self of
        None \<Rightarrow> returns self []
      | Some t \<Rightarrow>
          if SEND_COMMAND \<notin> attr_supported_features self then returns self []
          else
            (let payload =
                   (case ps of
                      ParamsDict d \<Rightarrow> json_dumps (dict_update [(''command'', JStr command)] d)
                    | ParamsList xs \<Rightarrow> command
                    | ParamsNone \<Rightarrow> command)
             in returns self
                  [Publish \<lparr>msg_topic = t, msg_payload = Some payload,
                            msg_qos = conf_qos (ent_config self),
                            msg_retain = conf_retain (ent_config self),
                            msg_encoding = conf_encoding (ent_config self)\<rparr>]))"

text \<open>The calls the host can make on the entity, and their dispatch.\<close>

datatype invocation =
    TurnOff
  | TurnOn
  | SetVolumeLevel rat
  | MuteVolume bool
  | SelectSource string
  | Pause
  | MediaPlay
  | MediaPause
  | MediaPreviousTrack
  | MediaNextTrack
  | SendCommand string params

definition invoke :: "(json pydict \<Rightarrow> string) \<Rightarrow> entity \<Rightarrow> invocation \<Rightarrow> outcome" where
  "invoke json_dumps self c =
     (case c of
        TurnOff \<Rightarrow> async_turn_off self
      | TurnOn \<Rightarrow> async_turn_on self
      | SetVolumeLevel volume \<Rightarrow> async_set_volume_level self volume
      | MuteVolume mute \<Rightarrow> async_mute_volume self mute
      | SelectSource source \<Rightarrow> async_select_source self source
      | Pause \<Rightarrow> async_pause self
      | MediaPlay \<Rightarrow> async_media_play self
      | MediaPause \<Rightarrow> async_media_pause self
      | MediaPreviousTrack \<Rightarrow> async_media_previous_track self
      | MediaNextTrack \<Rightarrow> async_media_next_track self
      | SendCommand command ps \<Rightarrow> async_send_command json_dumps self command ps)"

text \<open>The calls that go through \<open>_async_publish_command\<close>, hence to the command topic.\<close>

fun on_command_topic :: "invocation \<Rightarrow> bool" where
  "on_command_topic (SendCommand command ps) = False"
| "on_command_topic _ = True"

section \<open>A configured player\<close>

text \<open>
  A configuration with every topic set, two sources, and a payload for the
  volume; the player it configures; and the same without a command topic.
\<close>

definition example_raw :: raw_config where
  "example_raw =
     \<lparr>raw_source_list = Some [''TV'', ''Radio''],
      raw_payloads = [(CONF_PAYLOAD_VOLUME_SET, ''volume'')],
      raw_send_command_topic = Some ''player/send'',
      raw_set_volume_topic = Some ''player/volume'',
      raw_state_topic = Some ''player/state'',
      raw_supported_features = None,
      raw_command_topic = Some ''player/command'',
      raw_retain = None,
      raw_qos = 0,
      raw_encoding = ''utf-8''\<rparr>"

definition example_config :: config where
  "example_config =
     \<lparr>conf_source_list = [''TV'', ''Radio''],
      conf_payloads =
        [(''payload_pause'', ''pause''),
         (''payload_previous_track'', ''previous''),
         (''payload_next_track'', ''next''),
         (''payload_stop'', ''stop''),
         (''payload_clear_playlist'', ''clear_playlist''),
         (''payload_play'', ''play''),
         (''payload_browse_media'', ''browse''),
         (''payload_media_announce'', ''media_announce''),
         (''payload_volume_set'', ''volume'')],
      conf_send_command_topic = Some ''player/send'',
      conf_set_volume_topic = Some ''player/volume'',
      conf_state_topic = Some ''player/state'',
      conf_supported_features =
        [''pause'', ''volume_set'', ''volume_mute'', ''turn_on'', ''turn_off'', ''select_source'',
         ''stop'', ''play''],
      conf_command_topic = Some ''player/command'',
      conf_retain = False,
      conf_qos = 0,
      conf_encoding = ''utf-8''\<rparr>"

definition example_payloads :: "string option pydict" where
  "example_payloads =
     [(''payload_pause'', Some ''pause''),
      (''payload_seek'', None),
      (''payload_volume_set'', Some ''volume''),
      (''payload_volume_mute'', None),
      (''payload_previous_track'', Some ''previous''),
      (''payload_next_track'', Some ''next''),
      (''payload_turn_on'', None),
      (''payload_turn_off'', None),
      (''payload_play_media'', None),
      (''payload_volume_step'', None),
      (''payload_select_source'', None),
      (''payload_stop'', Some ''stop''),
      (''payload_clear_playlist'', Some ''clear_playlist''),
      (''payload_play'', Some ''play''),
      (''payload_shuffle_set'', None),
      (''payload_select_sound_mode'', None),
      (''payload_browse_media'', Some ''browse''),
      (''payload_repeat_set'', None),
      (''payload_grouping'', None),
      (''payload_media_announce'', Some ''media_announce''),
      (''payload_media_enqueue'', None)]"

definition example_entity :: entity where
  "example_entity =
     \<lparr>ent_config = example_config,
      attr_supported_features =
        {FEATURE_STATE, PAUSE, VOLUME_SET, VOLUME_MUTE, TURN_ON, TURN_OFF, SELECT_SOURCE, STOP, PLAY},
      attr_source_list = Some [''TV'', ''Radio''],
      command_topic = Some ''player/command'',
      set_volume_topic = Some ''player/volume'',
      send_command_topic = Some ''player/send'',
      payloads = example_payloads,
      state_attrs = [],
      attr_state = None,
      attr_fan_speed = None,
      attr_battery_level = None\<rparr>"

definition unwired_raw :: raw_config where
  "unwired_raw = example_raw\<lparr>raw_command_topic := None\<rparr>"

definition unwired_config :: config where
  "unwired_config = example_config\<lparr>conf_command_topic := None\<rparr>"

definition unwired_entity :: entity where
  "unwired_entity = example_entity\<lparr>ent_config := unwired_config, command_topic := None\<rparr>"

text \<open>
  A player whose features include \<open>SEND_COMMAND\<close>. No accepted configuration
  sets that flag; the entity is given directly.
\<close>

definition sending_entity :: entity where
  "sending_entity =
     example_entity\<lparr>attr_supported_features := insert SEND_COMMAND (attr_supported_features example_entity)\<rparr>"

section \<open>Facts about dictionaries\<close>

lemma map_of_dict_update: "map_of (dict_update d other) = map_of d ++ map_of (rev other)"
proof (induction other arbitrary: d)
  case Nil
  show ?case by (simp add: dict_update_def)
next
  case (Cons kv other)
  have step: "dict_update d (kv # other) = dict_update (AList.update (fst kv) (snd kv) d) other"
    by (simp add: dict_update_def)
  show ?case
    unfolding step Cons.IH
    by (rule ext) (simp add: update_conv' map_add_def split: option.splits)
qed

lemma distinct_dict_update:
  "distinct (map fst d) \<Longrightarrow> distinct (map fst (dict_update d other))"
proof (induction other arbitrary: d)
  case Nil
  then show ?case by (simp add: dict_update_def)
next
  case (Cons kv other)
  have step: "dict_update d (kv # other) = dict_update (AList.update (fst kv) (snd kv) d) other"
    by (simp add: dict_update_def)
  show ?case
    unfolding step using Cons.prems by (intro Cons.IH distinct_update)
qed

lemma map_of_rev_distinct: "distinct (map fst xs) \<Longrightarrow> map_of (rev xs) = map_of xs"
proof (induction xs)
  case Nil
  show ?case by simp
next
  case (Cons kv xs)
  then have "map_of xs (fst kv) = None"
    by (simp add: map_of_eq_None_iff)
  with Cons show ?case
    by (cases kv) (auto simp: map_add_def fun_eq_iff split: option.splits)
qed

lemma map_of_dict_update_distinct:
  "distinct (map fst other) \<Longrightarrow> map_of (dict_update d other) = map_of d ++ map_of other"
  by (simp add: map_of_dict_update map_of_rev_distinct)

lemma map_of_dict_update_None:
  "map_of (dict_update d other) k = None \<longleftrightarrow> map_of d k = None \<and> map_of other k = None"
  by (auto simp: map_of_dict_update map_of_eq_None_iff)

lemma json_loads_object_distinct:
  "json_loads_object msg = Inr payload \<Longrightarrow> distinct (map fst payload)"
  by (induction msg rule: json_loads_object.induct) (auto intro: distinct_dict_update)

section \<open>The configured players are what the schema and the constructor give\<close>

lemma example_accepted: "PLATFORM_SCHEMA_STATE_MODERN example_raw = Inr example_config"
  by code_simp

lemma example_setup: "setup_from_config (new_entity example_config) example_config = Inr example_entity"
  by code_simp

lemma unwired_accepted: "PLATFORM_SCHEMA_STATE_MODERN unwired_raw = Inr unwired_config"
  by code_simp

lemma unwired_setup: "setup_from_config (new_entity unwired_config) unwired_config = Inr unwired_entity"
  by code_simp

section \<open>Facts about the name tables\<close>

lemma STRING_TO_SERVICE_eq:
  "STRING_TO_SERVICE = map (\<lambda>kv. (snd kv, fst kv)) SERVICE_TO_STRING"
  by (simp add: STRING_TO_SERVICE_def SERVICE_TO_STRING_def dict_update_def)

lemma distinct_names: "distinct (map snd SERVICE_TO_STRING)"
  by (simp add: SERVICE_TO_STRING_def)

lemma map_of_swap:
  "distinct (map snd xs) \<Longrightarrow> (f, n) \<in> set xs \<Longrightarrow> map_of (map (\<lambda>kv. (snd kv, fst kv)) xs) n = Some f"
  by (rule map_of_is_SomeI) (force simp: comp_def)+

lemma STRING_TO_SERVICE_inverse:
  "(f, n) \<in> set SERVICE_TO_STRING \<Longrightarrow> map_of STRING_TO_SERVICE n = Some f"
  unfolding STRING_TO_SERVICE_eq by (rule map_of_swap [OF distinct_names])

lemma STRING_TO_SERVICE_named:
  "map_of STRING_TO_SERVICE n = Some f \<Longrightarrow> (f, n) \<in> set SERVICE_TO_STRING"
  unfolding STRING_TO_SERVICE_eq by (drule map_of_SomeD) auto

lemma strings_to_services_members:
  "strings_to_services strings table = Inr services \<Longrightarrow> f \<in> services
    \<Longrightarrow> \<exists>n. map_of table n = Some f"
  by (induction strings arbitrary: services)
    (auto split: option.splits sum.splits)

lemma strings_to_services_total:
  "first_unknown strings table = None \<Longrightarrow> \<exists>services. strings_to_services strings table = Inr services"
  by (induction strings)
    (auto simp: dict_contains_def split: if_splits option.splits sum.splits)

lemma first_unknown_None:
  "first_unknown strings table = None \<longleftrightarrow> set strings \<subseteq> fst ` set table"
  by (induction strings) (auto simp: dict_contains_def map_of_eq_None_iff)

lemma services_to_strings_round_trip:
  assumes "\<And>f n. (f, n) \<in> set names \<Longrightarrow> map_of table n = Some f"
  shows "strings_to_services (services_to_strings services names) table
    = Inr (services \<inter> fst ` set names)"
  using assms
proof (induction names)
  case Nil
  show ?case by (simp add: services_to_strings_def)
next
  case (Cons kv names)
  have tail: "strings_to_services (services_to_strings services names) table
      = Inr (services \<inter> fst ` set names)"
    using Cons.prems by (intro Cons.IH) auto
  have head: "map_of table (snd kv) = Some (fst kv)"
    using Cons.prems [of "fst kv" "snd kv"] by simp
  show ?case
    using tail head by (auto simp: services_to_strings_def)
qed

lemma named_services_round_trip:
  assumes "s \<subseteq> fst ` set SERVICE_TO_STRING"
  shows "strings_to_services (services_to_strings s SERVICE_TO_STRING) STRING_TO_SERVICE = Inr s"
proof -
  have "s \<inter> fst ` set SERVICE_TO_STRING = s"
    using assms by auto
  moreover have "strings_to_services (services_to_strings s SERVICE_TO_STRING) STRING_TO_SERVICE
      = Inr (s \<inter> fst ` set SERVICE_TO_STRING)"
    by (rule services_to_strings_round_trip) (rule STRING_TO_SERVICE_inverse)
  ultimately show ?thesis
    by simp
qed

lemma strings_to_services_named:
  assumes "strings_to_services names STRING_TO_SERVICE = Inr s"
  shows "s \<subseteq> fst ` set SERVICE_TO_STRING"
proof
  fix f
  assume "f \<in> s"
  then obtain n where "map_of STRING_TO_SERVICE n = Some f"
    using strings_to_services_members [OF assms] by blast
  then have "(f, n) \<in> set SERVICE_TO_STRING"
    by (rule STRING_TO_SERVICE_named)
  then show "f \<in> fst ` set SERVICE_TO_STRING"
    by force
qed

section \<open>Facts about the methods\<close>

lemmas conf_payload_defs =
  CONF_PAYLOAD_PAUSE_def CONF_PAYLOAD_SEEK_def CONF_PAYLOAD_VOLUME_SET_def
  CONF_PAYLOAD_VOLUME_MUTE_def CONF_PAYLOAD_PREVIOUS_TRACK_def CONF_PAYLOAD_NEXT_TRACK_def
  CONF_PAYLOAD_TURN_ON_def CONF_PAYLOAD_TURN_OFF_def CONF_PAYLOAD_PLAY_MEDIA_def
  CONF_PAYLOAD_VOLUME_STEP_def CONF_PAYLOAD_SELECT_SOURCE_def CONF_PAYLOAD_STOP_def
  CONF_PAYLOAD_CLEAR_PLAYLIST_def CONF_PAYLOAD_PLAY_def CONF_PAYLOAD_SHUFFLE_SET_def
  CONF_PAYLOAD_SELECT_SOUND_MODE_def CONF_PAYLOAD_BROWSE_MEDIA_def CONF_PAYLOAD_REPEAT_SET_def
  CONF_PAYLOAD_GROUPING_def CONF_PAYLOAD_MEDIA_ANNOUNCE_def CONF_PAYLOAD_MEDIA_ENQUEUE_def

lemma update_state_attributes_state_attrs:
  "state_attrs (ent (update_state_attributes self payload)) = dict_update (state_attrs self) payload"
  by (simp add: update_state_attributes_def Let_def raises_def returns_def split: sum.splits)

lemma update_state_attributes_attr_state:
  "attr_state (ent (update_state_attributes self payload)) = attr_state self"
  by (simp add: update_state_attributes_def Let_def raises_def returns_def split: sum.splits)

lemma update_state_attributes_out:
  "out (update_state_attributes self payload) = []"
  by (simp add: update_state_attributes_def Let_def raises_def returns_def split: sum.splits)

lemma setup_from_config_fields:
  assumes "setup_from_config e0 cfg = Inr self"
  shows "attr_source_list self = Some (conf_source_list cfg)"
    and "command_topic self = conf_command_topic cfg"
    and "set_volume_topic self = conf_set_volume_topic cfg"
    and "send_command_topic self = conf_send_command_topic cfg"
    and "payloads self = map (\<lambda>key. (key, map_of (conf_payloads cfg) key)) PAYLOAD_KEYS"
    and "ent_config self = ent_config e0"
  using assms by (auto simp: setup_from_config_def split: sum.splits)

lemma map_of_payload_keys:
  "key \<in> set keys \<Longrightarrow> map_of (map (\<lambda>key. (key, g key)) keys) key = Some (g key)"
  by (induction keys) auto

lemma feature_payload_key:
  "map_of FEATURE_PAYLOADS feature = Some key \<Longrightarrow> key \<in> set PAYLOAD_KEYS"
  by (cases feature) (simp_all add: FEATURE_PAYLOADS_def PAYLOAD_KEYS_def)

lemma publish_command_after_setup:
  assumes "setup_from_config e0 cfg = Inr self"
    and "map_of FEATURE_PAYLOADS feature = Some key"
  shows "async_publish_command self feature =
    (case conf_command_topic cfg of
       None \<Rightarrow> returns self []
     | Some t \<Rightarrow>
         returns self
           [Publish \<lparr>msg_topic = t, msg_payload = map_of (conf_payloads cfg) key,
                     msg_qos = conf_qos (ent_config self),
                     msg_retain = conf_retain (ent_config self),
                     msg_encoding = conf_encoding (ent_config self)\<rparr>,
            WriteHaState])"
  using map_of_payload_keys [OF feature_payload_key [OF assms(2)], of "map_of (conf_payloads cfg)"]
  by (simp add: async_publish_command_def setup_from_config_fields [OF assms(1)] assms(2)
      split: option.splits)

lemma publish_command_unwired:
  "command_topic self = None \<Longrightarrow> async_publish_command self feature = returns self []"
  by (simp add: async_publish_command_def)

lemma publish_command_ent: "ent (async_publish_command self feature) = self"
  by (simp add: async_publish_command_def returns_def raises_def split: option.splits)

lemma select_source_ent: "ent (async_select_source self source) = self"
  by (simp add: async_select_source_def publish_command_ent raises_def split: option.splits)

lemma send_command_ent: "ent (async_send_command json_dumps self command ps) = self"
  by (simp add: async_send_command_def returns_def Let_def split: option.splits)

section \<open>The claims\<close>

subsection \<open>C1: setting the volume\<close>

text \<open>
  Claim C1: with the volume-set topic configured, \<open>async_set_volume_level(v)\<close>
  publishes the configured volume payload to the volume-set topic exactly once,
  whatever \<open>v\<close> is. The code does not do this. The method goes through
  \<open>_async_publish_command\<close>, which reads the command topic only; the attribute
  \<open>_set_volume_topic\<close> is assigned in \<open>_setup_from_config\<close> and never read.
  On the player with the volume-set topic \<open>player/volume\<close> and no command topic
  nothing is published, and on the player with both topics the payload goes to
  \<open>player/command\<close>.
\<close>

theorem set_volume_level_publishes_on_command_topic:
  "set_volume_topic unwired_entity = Some ''player/volume''
    \<and> command_topic unwired_entity = None
    \<and> publishes (async_set_volume_level unwired_entity (1 / 2)) = []
    \<and> set_volume_topic example_entity = Some ''player/volume''
    \<and> publishes (async_set_volume_level example_entity (1 / 2)) =
        [\<lparr>msg_topic = ''player/command'', msg_payload = Some ''volume'', msg_qos = 0,
          msg_retain = False, msg_encoding = ''utf-8''\<rparr>]"
  by code_simp

subsection \<open>C2: a state value outside the vocabulary\<close>

text \<open>
  Claim C2, as amended: when the decoded payload has a \<open>state\<close> that is a
  string other than \<open>on\<close>, \<open>off\<close>, \<open>playing\<close> and \<open>paused\<close>, the
  playback status is left as it was and every key of the payload, the key
  \<open>state\<close> with its value included, is merged into the attribute dictionary
  (keys of the payload overwrite, the other keys persist). The claim as written
  has the \<open>state\<close> key dropped; the code deletes it only in the branch that
  accepts the value. The merge has happened also when the battery level that
  follows raises.
\<close>

theorem state_message_unrecognized_state_kept:
  assumes "json_loads_object msg = Inr payload"
    and "map_of payload STATE = Some (JStr s)"
    and "s \<noteq> ''on''" and "s \<noteq> ''off''" and "s \<noteq> ''playing''" and "s \<noteq> ''paused''"
  shows "attr_state (ent (state_message_received self msg)) = attr_state self
    \<and> map_of (state_attrs (ent (state_message_received self msg)))
        = map_of (state_attrs self) ++ map_of payload
    \<and> map_of (state_attrs (ent (state_message_received self msg))) STATE = Some (JStr s)"
proof -
  have unknown: "in_dict (JStr s) POSSIBLE_STATES = Inr False"
    using assms(3-6)
    by (simp add: dict_contains_def POSSIBLE_STATES_def STATE_ON_def STATE_OFF_def
        STATE_PLAYING_def STATE_PAUSED_def)
  have run: "state_message_received self msg = update_state_attributes self payload"
    using assms(1,2) unknown by (simp add: state_message_received_def)
  have merged: "map_of (state_attrs (ent (state_message_received self msg)))
      = map_of (state_attrs self) ++ map_of payload"
    unfolding run update_state_attributes_state_attrs
    using json_loads_object_distinct [OF assms(1)] by (rule map_of_dict_update_distinct)
  show ?thesis
    using merged assms(2) by (simp add: run update_state_attributes_attr_state)
qed

theorem state_message_unrecognized_state_kept_witness:
  "attr_state (ent (state_message_received example_entity
        (Document (JObj [(''state'', JStr ''bogus''), (''battery_level'', JInt 150)]))))
      = attr_state example_entity
    \<and> map_of (state_attrs (ent (state_message_received example_entity
        (Document (JObj [(''state'', JStr ''bogus''), (''battery_level'', JInt 150)])))))
      = map_of (state_attrs example_entity)
          ++ map_of [(''state'', JStr ''bogus''), (''battery_level'', JInt 150)]
    \<and> map_of (state_attrs (ent (state_message_received example_entity
        (Document (JObj [(''state'', JStr ''bogus''), (''battery_level'', JInt 150)])))))
        STATE
      = Some (JStr ''bogus'')"
  using state_message_unrecognized_state_kept
    [of "Document (JObj [(''state'', JStr ''bogus''), (''battery_level'', JInt 150)])"
      "[(''state'', JStr ''bogus''), (''battery_level'', JInt 150)]" "''bogus''" example_entity]
  by (simp add: dict_update_def STATE_def)

text \<open>
  The claim as written fails on the payload \<open>{"state": "bogus"}\<close>: afterwards the
  attribute dictionary has the key \<open>state\<close>.
\<close>

theorem state_message_bogus_state_counterexample:
  "map_of
     (state_attrs (ent (state_message_received example_entity
        (Document (JObj [(''state'', JStr ''bogus'')])))))
     ''state''
   = Some (JStr ''bogus'')"
  by code_simp

subsection \<open>C3: a payload that does not decode to an object\<close>

text \<open>
  Claim C3, as amended: when the payload is not JSON, or is a JSON document that
  is no object, \<open>state_message_received\<close> changes nothing of the entity and
  hands nothing to the host, and the error of \<open>json_loads_object\<close> leaves the
  handler: the handler has no exception handling of its own. The claim as
  written has no exception leave the handler.
\<close>

theorem state_message_decode_error_raised:
  assumes "msg = Malformed \<or> (\<exists>j. msg = Document j \<and> (\<forall>kvs. j \<noteq> JObj kvs))"
  shows "raised (state_message_received self msg) \<noteq> None
    \<and> ent (state_message_received self msg) = self
    \<and> out (state_message_received self msg) = []"
proof -
  obtain err where "json_loads_object msg = Inl err"
    using assms by (induction msg rule: json_loads_object.induct) auto
  then show ?thesis
    by (simp add: state_message_received_def raises_def)
qed

theorem state_message_decode_error_raised_witness:
  "raised (state_message_received example_entity (Document (JArr []))) \<noteq> None
    \<and> ent (state_message_received example_entity (Document (JArr []))) = example_entity
    \<and> out (state_message_received example_entity (Document (JArr []))) = []"
  using state_message_decode_error_raised [of "Document (JArr [])" example_entity]
  by simp

text \<open>The claim as written fails on a payload that is not JSON: the handler raises.\<close>

theorem state_message_malformed_counterexample:
  "raised (state_message_received example_entity Malformed) = Some JSONDecodeError"
  by code_simp

subsection \<open>C4: selecting a source\<close>

text \<open>
  Claim C4, as amended: after setup from any configuration, selecting a source
  that is not in the configured list raises \<open>ValueError\<close> and publishes
  nothing; selecting a source of the list publishes the configured
  \<open>payload_select_source\<close> (absent when the configuration has none) to the
  command topic once and asks for a state write when the command topic is
  configured, and does nothing when it is not. The claim as written has the
  second case publish under every configuration.
\<close>

theorem select_source_checks_list_then_topic:
  assumes "setup_from_config e0 cfg = Inr self"
  shows "(source \<notin> set (conf_source_list cfg) \<longrightarrow>
            raised (async_select_source self source)
              = Some (ValueError (''Unknown input source: '' @ source @ ''.''))
          \<and> out (async_select_source self source) = []
          \<and> publishes (async_select_source self source) = [])
    \<and> (source \<in> set (conf_source_list cfg) \<longrightarrow>
          async_select_source self source =
            (case conf_command_topic cfg of
               None \<Rightarrow> returns self []
             | Some t \<Rightarrow>
                 returns self
                   [Publish \<lparr>msg_topic = t,
                             msg_payload = map_of (conf_payloads cfg) CONF_PAYLOAD_SELECT_SOURCE,
                             msg_qos = conf_qos (ent_config self),
                             msg_retain = conf_retain (ent_config self),
                             msg_encoding = conf_encoding (ent_config self)\<rparr>,
                    WriteHaState]))"
proof -
  have key: "map_of FEATURE_PAYLOADS SELECT_SOURCE = Some CONF_PAYLOAD_SELECT_SOURCE"
    by (simp add: FEATURE_PAYLOADS_def)
  show ?thesis
    by (simp add: async_select_source_def setup_from_config_fields(1) [OF assms]
        publish_command_after_setup [OF assms key] raises_def publishes_def)
qed

theorem select_source_checks_list_then_topic_witness:
  "setup_from_config (new_entity example_config) example_config = Inr example_entity
    \<and> raised (async_select_source example_entity ''Tape'')
        = Some (ValueError ''Unknown input source: Tape.'')
    \<and> publishes (async_select_source example_entity ''Tape'') = []
    \<and> publishes (async_select_source example_entity ''TV'') =
        [\<lparr>msg_topic = ''player/command'', msg_payload = None, msg_qos = 0,
          msg_retain = False, msg_encoding = ''utf-8''\<rparr>]"
  using example_setup
    select_source_checks_list_then_topic [OF example_setup, of "''Tape''"]
    select_source_checks_list_then_topic [OF example_setup, of "''TV''"]
  by (simp add: example_config_def example_entity_def returns_def publishes_def
      CONF_PAYLOAD_SELECT_SOURCE_def)

text \<open>
  The claim as written fails on the player without a command topic: \<open>TV\<close> is
  in its source list, and selecting it publishes nothing.
\<close>

theorem select_source_unwired_counterexample:
  "attr_source_list unwired_entity = Some [''TV'', ''Radio'']
    \<and> command_topic unwired_entity = None
    \<and> raised (async_select_source unwired_entity ''TV'') = None
    \<and> publishes (async_select_source unwired_entity ''TV'') = []"
  by code_simp

subsection \<open>C5: a capability without a payload\<close>

text \<open>
  Claim C5, as amended: after setup from an accepted configuration, for a
  feature whose payload key has no default in the schema and no value in the
  configuration, \<open>_async_publish_command\<close> publishes one message with an absent
  payload to the command topic and asks for a state write when the command topic
  is configured, and does nothing when it is not. The claim as written has the
  call publish no absent payload; the code has no test of the payload.
\<close>

theorem absent_payload_is_published:
  assumes "PLATFORM_SCHEMA_STATE_MODERN raw = Inr cfg"
    and "setup_from_config e0 cfg = Inr self"
    and "map_of FEATURE_PAYLOADS feature = Some key"
    and "map_of SCHEMA_PAYLOAD_DEFAULTS key = None"
    and "map_of (raw_payloads raw) key = None"
  shows "async_publish_command self feature =
    (case raw_command_topic raw of
       None \<Rightarrow> returns self []
     | Some t \<Rightarrow>
         returns self
           [Publish \<lparr>msg_topic = t, msg_payload = None,
                     msg_qos = conf_qos (ent_config self),
                     msg_retain = conf_retain (ent_config self),
                     msg_encoding = conf_encoding (ent_config self)\<rparr>,
            WriteHaState])"
proof -
  have payloads: "conf_payloads cfg = dict_update SCHEMA_PAYLOAD_DEFAULTS (raw_payloads raw)"
    and topic: "conf_command_topic cfg = raw_command_topic raw"
    using assms(1)
    by (auto simp: PLATFORM_SCHEMA_STATE_MODERN_def Let_def split: option.splits)
  have "map_of (conf_payloads cfg) key = None"
    unfolding payloads using assms(4,5) by (simp add: map_of_dict_update_None)
  then show ?thesis
    by (simp add: publish_command_after_setup [OF assms(2,3)] topic split: option.splits)
qed

theorem absent_payload_is_published_witness:
  "async_publish_command example_entity TURN_ON =
     returns example_entity
       [Publish \<lparr>msg_topic = ''player/command'', msg_payload = None, msg_qos = 0,
                 msg_retain = False, msg_encoding = ''utf-8''\<rparr>,
        WriteHaState]"
  using absent_payload_is_published
    [OF example_accepted example_setup, of TURN_ON CONF_PAYLOAD_TURN_ON]
  by (simp add: FEATURE_PAYLOADS_def SCHEMA_PAYLOAD_DEFAULTS_def conf_payload_defs
      example_raw_def example_entity_def example_config_def)

text \<open>
  The claim as written fails on the configured player: its configuration is
  accepted and has no \<open>payload_turn_on\<close>, and turning it on publishes an absent
  payload to the command topic.
\<close>

theorem turn_on_absent_payload_counterexample:
  "map_of (raw_payloads example_raw) CONF_PAYLOAD_TURN_ON = None
    \<and> map_of SCHEMA_PAYLOAD_DEFAULTS CONF_PAYLOAD_TURN_ON = None
    \<and> raised (async_turn_on example_entity) = None
    \<and> publishes (async_turn_on example_entity) =
        [\<lparr>msg_topic = ''player/command'', msg_payload = None, msg_qos = 0,
          msg_retain = False, msg_encoding = ''utf-8''\<rparr>]"
  by code_simp

subsection \<open>C6: sending a command\<close>

text \<open>
  Claim C6: on an entity whose features include \<open>SEND_COMMAND\<close> and whose
  send-command topic is set, \<open>async_send_command("foo", {"bar": 1})\<close> publishes
  exactly one message to that topic, whose payload is the serialization of the
  dictionary with \<open>command\<close> mapped to \<open>foo\<close> and \<open>bar\<close> mapped to \<open>1\<close>;
  with \<open>params\<close> a list or \<open>None\<close> the payload is the command string itself.
  The serializer is any function. The statement is about the method; that setup
  from an accepted configuration never gives such an entity is claim C10.
\<close>

theorem send_command_publishes_when_enabled:
  assumes "SEND_COMMAND \<in> attr_supported_features self"
    and "send_command_topic self = Some t"
  shows "async_send_command json_dumps self ''foo'' (ParamsDict [(''bar'', JInt 1)]) =
      returns self
        [Publish \<lparr>msg_topic = t,
                  msg_payload = Some (json_dumps [(''command'', JStr ''foo''), (''bar'', JInt 1)]),
                  msg_qos = conf_qos (ent_config self),
                  msg_retain = conf_retain (ent_config self),
                  msg_encoding = conf_encoding (ent_config self)\<rparr>]
    \<and> async_send_command json_dumps self command ParamsNone =
      returns self
        [Publish \<lparr>msg_topic = t, msg_payload = Some command,
                  msg_qos = conf_qos (ent_config self),
                  msg_retain = conf_retain (ent_config self),
                  msg_encoding = conf_encoding (ent_config self)\<rparr>]
    \<and> async_send_command json_dumps self command (ParamsList xs) =
      returns self
        [Publish \<lparr>msg_topic = t, msg_payload = Some command,
                  msg_qos = conf_qos (ent_config self),
                  msg_retain = conf_retain (ent_config self),
                  msg_encoding = conf_encoding (ent_config self)\<rparr>]"
  using assms by (simp add: async_send_command_def dict_update_def)

theorem send_command_publishes_when_enabled_witness:
  "SEND_COMMAND \<in> attr_supported_features sending_entity
    \<and> send_command_topic sending_entity = Some ''player/send''
    \<and> publishes (async_send_command (\<lambda>d. concat (map fst d)) sending_entity ''foo''
          (ParamsDict [(''bar'', JInt 1)])) =
        [\<lparr>msg_topic = ''player/send'', msg_payload = Some ''commandbar'', msg_qos = 0,
          msg_retain = False, msg_encoding = ''utf-8''\<rparr>]
    \<and> publishes (async_send_command (\<lambda>d. concat (map fst d)) sending_entity ''foo'' ParamsNone) =
        [\<lparr>msg_topic = ''player/send'', msg_payload = Some ''foo'', msg_qos = 0,
          msg_retain = False, msg_encoding = ''utf-8''\<rparr>]"
  using send_command_publishes_when_enabled
    [of sending_entity "''player/send''" "\<lambda>d. concat (map fst d)" "''foo''" "[]"]
  by (simp add: sending_entity_def example_entity_def example_config_def returns_def
      publishes_def)

subsection \<open>C7: no command topic\<close>

text \<open>
  Claim C7, as amended: when the command topic is unset, every call that goes
  through \<open>_async_publish_command\<close> has no effect on the host and leaves the
  entity as it was; it raises nothing, except \<open>async_select_source\<close> with a
  source outside the source list, which raises \<open>ValueError\<close> because the list
  is tested before the topic. The claim as written has no such call raise.
\<close>

theorem no_command_topic_no_publish:
  assumes "command_topic self = None" and "on_command_topic c"
  shows "out (invoke json_dumps self c) = []
    \<and> publishes (invoke json_dumps self c) = []
    \<and> ent (invoke json_dumps self c) = self
    \<and> raised (invoke json_dumps self c) =
        (case c of
           SelectSource source \<Rightarrow>
             (if source \<in> set (case attr_source_list self of None \<Rightarrow> [] | Some sources \<Rightarrow> sources)
              then None
              else Some (ValueError (''Unknown input source: '' @ source @ ''.'')))
         | _ \<Rightarrow> None)"
  using assms(2)
  by (cases c)
    (simp_all add: invoke_def async_turn_off_def async_turn_on_def async_set_volume_level_def
      async_mute_volume_def async_select_source_def async_pause_def async_media_play_def
      async_media_pause_def async_media_previous_track_def async_media_next_track_def
      publish_command_unwired [OF assms(1)] returns_def raises_def publishes_def
      split: option.splits)

theorem no_command_topic_no_publish_witness:
  "command_topic unwired_entity = None
    \<and> out (invoke (\<lambda>d. []) unwired_entity TurnOn) = []
    \<and> raised (invoke (\<lambda>d. []) unwired_entity TurnOn) = None
    \<and> out (invoke (\<lambda>d. []) unwired_entity (SelectSource ''TV'')) = []
    \<and> raised (invoke (\<lambda>d. []) unwired_entity (SelectSource ''TV'')) = None"
  using no_command_topic_no_publish [of unwired_entity TurnOn "\<lambda>d. []"]
    no_command_topic_no_publish [of unwired_entity "SelectSource ''TV''" "\<lambda>d. []"]
  by (simp add: unwired_entity_def example_entity_def)

text \<open>
  The claim as written fails on the player without a command topic: selecting
  the source \<open>Tape\<close>, which is not in its list, raises.
\<close>

theorem select_unknown_source_unwired_counterexample:
  "command_topic unwired_entity = None
    \<and> raised (async_select_source unwired_entity ''Tape'')
        = Some (ValueError ''Unknown input source: Tape.'')"
  by code_simp

subsection \<open>C8: names and capability sets\<close>

text \<open>
  Claim C8: a set of named capabilities (a subset of the keys of
  \<open>SERVICE_TO_STRING\<close>) converted to its names and back is the same set; and
  for a list of names of the table, the set it resolves to is unchanged by the
  conversion to names and back. The two conversions are the ones modelled from
  the spec. \<open>FEATURE_STATE\<close> and \<open>SEND_COMMAND\<close> have no name and are outside
  the representable sets.
\<close>

theorem capability_names_round_trip:
  "(services \<subseteq> fst ` set SERVICE_TO_STRING \<longrightarrow>
      strings_to_services (services_to_strings services SERVICE_TO_STRING) STRING_TO_SERVICE
        = Inr services)
   \<and> (set names \<subseteq> snd ` set SERVICE_TO_STRING \<longrightarrow>
        (\<exists>s. strings_to_services names STRING_TO_SERVICE = Inr s
           \<and> strings_to_services (services_to_strings s SERVICE_TO_STRING) STRING_TO_SERVICE
               = Inr s))"
proof (intro conjI impI)
  assume "services \<subseteq> fst ` set SERVICE_TO_STRING"
  then show "strings_to_services (services_to_strings services SERVICE_TO_STRING) STRING_TO_SERVICE
      = Inr services"
    by (rule named_services_round_trip)
next
  assume valid: "set names \<subseteq> snd ` set SERVICE_TO_STRING"
  have "set names \<subseteq> fst ` set STRING_TO_SERVICE"
    using valid unfolding STRING_TO_SERVICE_eq by (simp add: image_image)
  then obtain s where s: "strings_to_services names STRING_TO_SERVICE = Inr s"
    using strings_to_services_total [of names STRING_TO_SERVICE]
    by (auto simp: first_unknown_None)
  from s have "strings_to_services (services_to_strings s SERVICE_TO_STRING) STRING_TO_SERVICE = Inr s"
    by (intro named_services_round_trip strings_to_services_named)
  with s show "\<exists>s. strings_to_services names STRING_TO_SERVICE = Inr s
      \<and> strings_to_services (services_to_strings s SERVICE_TO_STRING) STRING_TO_SERVICE = Inr s"
    by blast
qed

theorem capability_names_round_trip_witness:
  "strings_to_services (services_to_strings {PLAY, PAUSE} SERVICE_TO_STRING) STRING_TO_SERVICE
      = Inr {PLAY, PAUSE}
    \<and> (\<exists>s. strings_to_services [''play'', ''pause'', ''play''] STRING_TO_SERVICE = Inr s
          \<and> strings_to_services (services_to_strings s SERVICE_TO_STRING) STRING_TO_SERVICE
              = Inr s)"
  using capability_names_round_trip [of "{PLAY, PAUSE}" "[''play'', ''pause'', ''play'']"]
  by (simp add: SERVICE_TO_STRING_def)

subsection \<open>C9: commands leave the device state alone\<close>

text \<open>
  Claim C9: every call the host can make on the entity (turn on and off, set and
  mute the volume, select a source, pause, play, previous and next track, send a
  command) leaves the entity as it was, in particular its playback status, its
  attribute dictionary, its fan speed and its battery level, whether the call
  returns or raises. The source has no method for stop or for a volume step.
\<close>

theorem invoke_leaves_device_state:
  "ent (invoke json_dumps self c) = self
    \<and> attr_state (ent (invoke json_dumps self c)) = attr_state self
    \<and> state_attrs (ent (invoke json_dumps self c)) = state_attrs self
    \<and> attr_fan_speed (ent (invoke json_dumps self c)) = attr_fan_speed self
    \<and> attr_battery_level (ent (invoke json_dumps self c)) = attr_battery_level self"
proof -
  have "ent (invoke json_dumps self c) = self"
    by (cases c)
      (simp_all add: invoke_def async_turn_off_def async_turn_on_def async_set_volume_level_def
        async_mute_volume_def async_pause_def async_media_play_def async_media_pause_def
        async_media_previous_track_def async_media_next_track_def publish_command_ent
        select_source_ent send_command_ent)
  then show ?thesis by simp
qed

theorem invoke_leaves_device_state_witness:
  "ent (invoke (\<lambda>d. []) example_entity (SelectSource ''Tape'')) = example_entity
    \<and> attr_state (ent (invoke (\<lambda>d. []) example_entity TurnOn)) = attr_state example_entity"
  using invoke_leaves_device_state [of "\<lambda>d. []" example_entity "SelectSource ''Tape''"]
    invoke_leaves_device_state [of "\<lambda>d. []" example_entity TurnOn]
  by simp

subsection \<open>C10: the send-command flag is never set\<close>

text \<open>
  Claim C10: the name \<open>send_command\<close> is not in the table that the list of
  supported features is checked against, and \<open>SEND_COMMAND\<close> has no name in
  it; so for every configuration the schema accepts, setup succeeds from any
  entity and gives one whose features do not include \<open>SEND_COMMAND\<close>, on which
  \<open>async_send_command\<close> returns without publishing, for every command,
  parameter and serializer, whatever the send-command topic.
\<close>

theorem send_command_never_enabled:
  assumes "PLATFORM_SCHEMA_STATE_MODERN raw = Inr cfg"
  shows "''send_command'' \<notin> snd ` set SERVICE_TO_STRING
    \<and> SEND_COMMAND \<notin> fst ` set SERVICE_TO_STRING
    \<and> (\<exists>self. setup_from_config e0 cfg = Inr self
          \<and> SEND_COMMAND \<notin> attr_supported_features self
          \<and> async_send_command json_dumps self command ps = returns self []
          \<and> publishes (async_send_command json_dumps self command ps) = [])"
proof -
  have absent: "''send_command'' \<notin> snd ` set SERVICE_TO_STRING"
    and unnamed: "SEND_COMMAND \<notin> fst ` set SERVICE_TO_STRING"
    by (simp_all add: SERVICE_TO_STRING_def)
  have "first_unknown (conf_supported_features cfg) STRING_TO_SERVICE = None"
    using assms
    by (auto simp: PLATFORM_SCHEMA_STATE_MODERN_def Let_def split: option.splits)
  then obtain services
    where services: "strings_to_services (conf_supported_features cfg) STRING_TO_SERVICE = Inr services"
    using strings_to_services_total by blast
  have "SEND_COMMAND \<notin> services"
  proof
    assume "SEND_COMMAND \<in> services"
    then obtain n where "map_of STRING_TO_SERVICE n = Some SEND_COMMAND"
      using strings_to_services_members [OF services] by blast
    then have "(SEND_COMMAND, n) \<in> set SERVICE_TO_STRING" by (rule STRING_TO_SERVICE_named)
    then show False using unnamed by force
  qed
  then have "\<exists>self. setup_from_config e0 cfg = Inr self
      \<and> SEND_COMMAND \<notin> attr_supported_features self
      \<and> async_send_command json_dumps self command ps = returns self []
      \<and> publishes (async_send_command json_dumps self command ps) = []"
    using services
    by (simp add: setup_from_config_def async_send_command_def publishes_def returns_def
        split: option.splits)
  with absent unnamed show ?thesis by blast
qed

theorem send_command_never_enabled_witness:
  "PLATFORM_SCHEMA_STATE_MODERN example_raw = Inr example_config
    \<and> conf_send_command_topic example_config = Some ''player/send''
    \<and> (\<exists>self. setup_from_config (new_entity example_config) example_config = Inr self
          \<and> SEND_COMMAND \<notin> attr_supported_features self
          \<and> publishes (async_send_command (\<lambda>d. []) self ''foo'' ParamsNone) = [])"
proof -
  have topic: "conf_send_command_topic example_config = Some ''player/send''"
    by (simp add: example_config_def)
  show ?thesis
    using example_accepted topic
      send_command_never_enabled
        [OF example_accepted, of "new_entity example_config" "\<lambda>d. []" "''foo''" ParamsNone]
    by blast
qed

end
